theory Spec2Isabelle
  imports Complex_Main "HOL-Library.Word" "HOL-Library.Signed_Division"
begin

section \<open>Go values used by decom-eta\<close>

text \<open>
  The program is one Go file, \<^verbatim>\<open>main.go\<close>: \<^verbatim>\<open>main\<close> lists the pools of a MinIO
  cluster and prints, for every pool that is being decommissioned, its progress and an
  estimated time of completion; \<^verbatim>\<open>formatDuration\<close> renders the remaining time.

  Go's \<^verbatim>\<open>int64\<close> is \<^typ>\<open>64 word\<close>: \<open>+\<close>, \<open>-\<close> and \<open>*\<close> wrap around and \<^const>\<open>sint\<close>
  reads the two's complement value. The byte counters of
  \<^verbatim>\<open>madmin.PoolDecommissionInfo\<close> and \<^verbatim>\<open>time.Duration\<close> (nanoseconds) have this type.
\<close>

type_synonym int64 = "64 word"
type_synonym Duration = "64 word"

text \<open>
  A \<^verbatim>\<open>time.Time\<close> is the number of nanoseconds since Go's zero time (January 1 of
  year 1, UTC); \<^verbatim>\<open>IsZero\<close> holds of 0 only.
\<close>

type_synonym Time = int

definition IsZero :: "Time \<Rightarrow> bool" where
  "IsZero t = (t = 0)"

text \<open>
  A \<^verbatim>\<open>float64\<close> is a rational, an infinity or NaN. Finite values are the exact
  rationals: rounding to 53 bits is not part of the model. Zero is the positive zero
  (no operation of the program produces a negative zero from its integer operands).
\<close>

datatype float64 = Fin rat | PInf | NInf | NaN

text \<open>The quotient \<^verbatim>\<open>x / y\<close> of IEEE 754: dividing by zero gives an infinity or NaN.\<close>

fun fdiv :: "float64 \<Rightarrow> float64 \<Rightarrow> float64" where
  "fdiv NaN _ = NaN"
| "fdiv _ NaN = NaN"
| "fdiv (Fin a) (Fin b) =
     (if b \<noteq> 0 then Fin (a / b)
      else if a = 0 then NaN else if 0 < a then PInf else NInf)"
| "fdiv (Fin a) PInf = Fin 0"
| "fdiv (Fin a) NInf = Fin 0"
| "fdiv PInf (Fin b) = (if 0 \<le> b then PInf else NInf)"
| "fdiv NInf (Fin b) = (if 0 \<le> b then NInf else PInf)"
| "fdiv PInf PInf = NaN"
| "fdiv PInf NInf = NaN"
| "fdiv NInf PInf = NaN"
| "fdiv NInf NInf = NaN"

fun fmul :: "float64 \<Rightarrow> float64 \<Rightarrow> float64" where
  "fmul NaN _ = NaN"
| "fmul _ NaN = NaN"
| "fmul (Fin a) (Fin b) = Fin (a * b)"
| "fmul (Fin a) PInf = (if a = 0 then NaN else if 0 < a then PInf else NInf)"
| "fmul (Fin a) NInf = (if a = 0 then NaN else if 0 < a then NInf else PInf)"
| "fmul PInf (Fin b) = (if b = 0 then NaN else if 0 < b then PInf else NInf)"
| "fmul NInf (Fin b) = (if b = 0 then NaN else if 0 < b then NInf else PInf)"
| "fmul PInf PInf = PInf"
| "fmul PInf NInf = NInf"
| "fmul NInf PInf = NInf"
| "fmul NInf NInf = PInf"

fun fsub :: "float64 \<Rightarrow> float64 \<Rightarrow> float64" where
  "fsub NaN _ = NaN"
| "fsub _ NaN = NaN"
| "fsub (Fin a) (Fin b) = Fin (a - b)"
| "fsub (Fin a) PInf = NInf"
| "fsub (Fin a) NInf = PInf"
| "fsub PInf (Fin b) = PInf"
| "fsub NInf (Fin b) = NInf"
| "fsub PInf PInf = NaN"
| "fsub PInf NInf = PInf"
| "fsub NInf PInf = NInf"
| "fsub NInf NInf = NaN"

text \<open>The comparison \<^verbatim>\<open>x < y\<close>: false as soon as one side is NaN.\<close>

fun flt :: "float64 \<Rightarrow> float64 \<Rightarrow> bool" where
  "flt NaN _ = False"
| "flt _ NaN = False"
| "flt (Fin a) (Fin b) = (a < b)"
| "flt (Fin a) PInf = True"
| "flt (Fin a) NInf = False"
| "flt PInf _ = False"
| "flt NInf (Fin b) = True"
| "flt NInf PInf = True"
| "flt NInf NInf = False"

text \<open>\<^verbatim>\<open>x <= y\<close>, used to compare two progress fractions.\<close>

fun fle :: "float64 \<Rightarrow> float64 \<Rightarrow> bool" where
  "fle NaN _ = False"
| "fle _ NaN = False"
| "fle x y = (x = y \<or> flt x y)"

text \<open>The conversion \<^verbatim>\<open>float64(x)\<close> of an \<^verbatim>\<open>int64\<close>.\<close>

definition float64_of :: "int64 \<Rightarrow> float64" where
  "float64_of x = Fin (of_int (sint x))"

text \<open>A float converted to an integer loses its fraction (truncation towards zero).\<close>

definition trunc :: "rat \<Rightarrow> int" where
  "trunc r = (if 0 \<le> r then \<lfloor>r\<rfloor> else \<lceil>r\<rceil>)"

subsection \<open>Durations\<close>

text \<open>
  \<^verbatim>\<open>Duration.Seconds\<close>, \<^verbatim>\<open>Minutes\<close> and \<^verbatim>\<open>Hours\<close> return the duration as a (finite)
  floating-point number of seconds, minutes and hours.
\<close>

definition Second :: Duration where
  "Second = 1000000000"

definition Seconds :: "Duration \<Rightarrow> rat" where
  "Seconds d = of_int (sint d) / 1000000000"

definition Minutes :: "Duration \<Rightarrow> rat" where
  "Minutes d = of_int (sint d) / 60000000000"

definition Hours :: "Duration \<Rightarrow> rat" where
  "Hours d = of_int (sint d) / 3600000000000"

text \<open>
  \<^verbatim>\<open>t.Sub(u)\<close>: the difference of two times, which saturates at the least and the
  greatest \<^verbatim>\<open>Duration\<close>. \<^verbatim>\<open>time.Since(u)\<close> is \<^verbatim>\<open>time.Now().Sub(u)\<close>.
\<close>

definition Sub :: "Time \<Rightarrow> Time \<Rightarrow> Duration" where
  "Sub t u =
     (if - (2 ^ 63) \<le> t - u \<and> t - u < 2 ^ 63 then word_of_int (t - u)
      else if t < u then word_of_int (- (2 ^ 63)) else word_of_int (2 ^ 63 - 1))"

text \<open>\<^verbatim>\<open>t.Add(d)\<close>.\<close>

definition Add :: "Time \<Rightarrow> Duration \<Rightarrow> Time" where
  "Add t d = t + sint d"

subsection \<open>Printing integers and joining strings\<close>

text \<open>The verb \<^verbatim>\<open>%d\<close> of \<^verbatim>\<open>fmt\<close>: decimal digits, with a minus sign below zero.\<close>

fun show_nat :: "nat \<Rightarrow> string" where
  "show_nat n =
     (if n < 10 then [''0123456789'' ! n]
      else show_nat (n div 10) @ [''0123456789'' ! (n mod 10)])"

declare show_nat.simps [simp del]

definition Sprintf_d :: "int \<Rightarrow> string" where
  "Sprintf_d i = (if i < 0 then CHR ''-'' # show_nat (nat (- i)) else show_nat (nat i))"

text \<open>\<^verbatim>\<open>strings.Join(elems, sep)\<close>.\<close>

fun Join :: "string list \<Rightarrow> string \<Rightarrow> string" where
  "Join [] sep = []"
| "Join [x] sep = x"
| "Join (x # y # ys) sep = x @ sep @ Join (y # ys) sep"

section \<open>formatDuration\<close>

text \<open>
  \<^verbatim>\<open>
  func formatDuration(d time.Duration) string {
      days := int(d.Hours()) / 24
      hours := int(d.Hours()) % 24
      mins := int(d.Minutes()) % 60
      var parts []string
      if days > 0 { parts = append(parts, fmt.Sprintf("%dd", days)) }
      if hours > 0 { parts = append(parts, fmt.Sprintf("%dh", hours)) }
      if mins > 0 { parts = append(parts, fmt.Sprintf("%dm", mins)) }
      if len(parts) == 0 { return "< 1m" }
      return strings.Join(parts, " ")
  }
  \<close>
  Go's \<^verbatim>\<open>/\<close> and \<^verbatim>\<open>%\<close> on integers truncate towards zero: \<open>sdiv\<close> and \<open>smod\<close>. The
  values of \<^verbatim>\<open>int(d.Hours())\<close> and \<^verbatim>\<open>int(d.Minutes())\<close> are below \<open>2 ^ 28\<close> in absolute
  value, so they fit Go's \<^verbatim>\<open>int\<close> whatever its width and are modelled in \<^typ>\<open>int\<close>.
\<close>

definition formatDuration :: "Duration \<Rightarrow> string" where
  "formatDuration d =
     (let days = trunc (Hours d) sdiv 24;
          hours = trunc (Hours d) smod 24;
          mins = trunc (Minutes d) smod 60;
          parts0 = [];
          parts1 = (if 0 < days then parts0 @ [Sprintf_d days @ ''d''] else parts0);
          parts2 = (if 0 < hours then parts1 @ [Sprintf_d hours @ ''h''] else parts1);
          parts3 = (if 0 < mins then parts2 @ [Sprintf_d mins @ ''m''] else parts2)
      in if length parts3 = 0 then ''< 1m'' else Join parts3 '' '')"


section \<open>The loop of main\<close>

subsection \<open>Pools, clock readings and the functions of other packages\<close>

text \<open>
  \<^verbatim>\<open>madmin.PoolDecommissionInfo\<close> (package \<^verbatim>\<open>madmin-go/v3\<close>), the fields that \<^verbatim>\<open>main\<close>
  reads: \<^verbatim>\<open>StartTime time.Time\<close>, \<^verbatim>\<open>StartSize\<close>, \<^verbatim>\<open>TotalSize\<close>, \<^verbatim>\<open>CurrentSize int64\<close>
  and three flags. \<^verbatim>\<open>madmin.PoolStatus\<close> holds a pointer to it, which may be nil.
\<close>

record PoolDecommissionInfo =
  StartTime :: Time
  StartSize :: int64
  TotalSize :: int64
  CurrentSize :: int64
  Complete :: bool
  Failed :: bool
  Canceled :: bool

record PoolStatus =
  ID :: int
  CmdLine :: string
  Decommission :: "PoolDecommissionInfo option"

text \<open>
  One iteration of the loop reads the clock up to three times: in \<^verbatim>\<open>time.Since\<close>
  (line 137), in the \<^verbatim>\<open>time.Now()\<close> handed to \<^verbatim>\<open>humanize.RelTime\<close> (line 138) and in
  the \<^verbatim>\<open>time.Now()\<close> the remaining time is added to (line 158).
\<close>

record readings =
  now_since :: Time
  now_rel :: Time
  now_eta :: Time

text \<open>
  What other packages and the platform decide is a parameter of the model: the
  formatters \<^verbatim>\<open>Time.Format(time.RFC3339)\<close>, \<^verbatim>\<open>humanize.RelTime(a, b, "", "")\<close>,
  \<^verbatim>\<open>humanize.IBytes\<close> and the verb \<^verbatim>\<open>%.1f\<close>, and the result of converting a float
  that the integer type cannot represent, which the Go specification leaves to the
  implementation.
\<close>

record env =
  RFC3339 :: "Time \<Rightarrow> string"
  RelTime :: "Time \<Rightarrow> Time \<Rightarrow> string"
  IBytes :: "64 word \<Rightarrow> string"
  Fmt1f :: "float64 \<Rightarrow> string"
  oob_int64 :: "float64 \<Rightarrow> 64 word"
  oob_uint64 :: "float64 \<Rightarrow> 64 word"

text \<open>\<^verbatim>\<open>time.Duration(f)\<close> (an \<^verbatim>\<open>int64\<close>) and \<^verbatim>\<open>uint64(f)\<close> of a float \<open>f\<close>.\<close>

definition int64_of_float :: "env \<Rightarrow> float64 \<Rightarrow> 64 word" where
  "int64_of_float e f =
     (case f of
        Fin r \<Rightarrow>
          if - (2 ^ 63) \<le> trunc r \<and> trunc r < 2 ^ 63 then word_of_int (trunc r)
          else oob_int64 e f
      | _ \<Rightarrow> oob_int64 e f)"

definition uint64_of_float :: "env \<Rightarrow> float64 \<Rightarrow> 64 word" where
  "uint64_of_float e f =
     (case f of
        Fin r \<Rightarrow>
          if 0 \<le> trunc r \<and> trunc r < 2 ^ 64 then word_of_int (trunc r)
          else oob_uint64 e f
      | _ \<Rightarrow> oob_uint64 e f)"

subsection \<open>What one iteration computes\<close>

text \<open>
  The values an iteration computes for a pool whose progress it prints (lines 131 to
  158): the three differences of the counters, the elapsed time, the progress
  fraction, the speed, the percentage of the pool still in use, and, when the
  estimate is printed, the remaining duration and the time of completion.
\<close>

record metrics =
  initialUsed :: int64
  bytesFreed :: int64
  usedNow :: int64
  elapsed :: Duration
  progress :: float64
  speed :: float64
  usagePercent :: float64
  eta :: "(Duration \<times> Time) option"

text \<open>
  The three ways an iteration can go: the pool is skipped (\<^verbatim>\<open>continue\<close>, lines 117 to
  123), the placeholder is printed (line 164), or the progress lines are (lines 141 to
  162).
\<close>

datatype view = NotDraining | Starting | InProgress metrics

text \<open>
  \<^verbatim>\<open>
  d := pool.Decommission
  if d == nil || d.StartTime.IsZero() { continue }
  if d.Complete || d.Failed || d.Canceled { continue }
  hasDraining = true
  initialUsed := d.TotalSize - d.StartSize
  bytesFreed := d.CurrentSize - d.StartSize
  usedNow := d.TotalSize - d.CurrentSize
  ...
  elapsed := time.Since(d.StartTime)
  ...
  if bytesFreed > 0 && initialUsed > 0 && elapsed.Seconds() > 10 {
      progress := float64(bytesFreed) / float64(initialUsed)
      speed := float64(bytesFreed) / elapsed.Seconds()
      ... 100*float64(usedNow)/float64(d.TotalSize) ...
      if progress > 0 && progress < 1.0 {
          totalEstimated := elapsed.Seconds() / progress
          etaSeconds := totalEstimated - elapsed.Seconds()
          etaDuration := time.Duration(etaSeconds) * time.Second
          etaTime := time.Now().Add(etaDuration)
          ...
      }
  } else { ... }
  \<close>
\<close>

definition evaluate :: "env \<Rightarrow> PoolDecommissionInfo option \<Rightarrow> readings \<Rightarrow> view" where
  "evaluate e dp clk =
     (case dp of
        None \<Rightarrow> NotDraining
      | Some d \<Rightarrow>
          if IsZero (StartTime d) then NotDraining
          else if Complete d \<or> Failed d \<or> Canceled d then NotDraining
          else
            let initialUsed = TotalSize d - StartSize d;
                bytesFreed = CurrentSize d - StartSize d;
                usedNow = TotalSize d - CurrentSize d;
                elapsed = Sub (now_since clk) (StartTime d)
            in
              if 0 <s bytesFreed \<and> 0 <s initialUsed \<and> 10 < Seconds elapsed then
                let progress = fdiv (float64_of bytesFreed) (float64_of initialUsed);
                    speed = fdiv (float64_of bytesFreed) (Fin (Seconds elapsed))
                in InProgress
                  \<lparr>initialUsed = initialUsed, bytesFreed = bytesFreed, usedNow = usedNow,
                   elapsed = elapsed, progress = progress, speed = speed,
                   usagePercent =
                     fdiv (fmul (Fin 100) (float64_of usedNow)) (float64_of (TotalSize d)),
                   eta =
                     (if flt (Fin 0) progress \<and> flt progress (Fin 1) then
                        let totalEstimated = fdiv (Fin (Seconds elapsed)) progress;
                            etaSeconds = fsub totalEstimated (Fin (Seconds elapsed));
                            etaDuration = int64_of_float e etaSeconds * Second;
                            etaTime = Add (now_eta clk) etaDuration
                        in Some (etaDuration, etaTime)
                      else None)\<rparr>
              else Starting)"

subsection \<open>What one iteration prints\<close>

text \<open>The output is the list of the lines printed, each without its newline.\<close>

definition header_line :: "PoolStatus \<Rightarrow> string" where
  "header_line p = ''Pool #'' @ Sprintf_d (ID p + 1) @ '': '' @ CmdLine p"

definition started_line :: "env \<Rightarrow> readings \<Rightarrow> PoolDecommissionInfo \<Rightarrow> string" where
  "started_line e clk d =
     ''  Started: '' @ RFC3339 e (StartTime d) @ '' ('' @
       RelTime e (StartTime d) (now_rel clk) @ '' ago)''"

definition progress_line :: "env \<Rightarrow> metrics \<Rightarrow> string" where
  "progress_line e m =
     ''  Progress: '' @ IBytes e (bytesFreed m) @ '' / '' @ IBytes e (initialUsed m) @
       '' freed ('' @ Fmt1f e (fmul (progress m) (Fin 100)) @ ''%)''"

definition usage_line :: "env \<Rightarrow> PoolDecommissionInfo \<Rightarrow> metrics \<Rightarrow> string" where
  "usage_line e d m =
     ''  Current usage: '' @ IBytes e (usedNow m) @ '' / '' @ IBytes e (TotalSize d) @
       '' ('' @ Fmt1f e (usagePercent m) @ ''%)''"

definition speed_line :: "env \<Rightarrow> metrics \<Rightarrow> string" where
  "speed_line e m = ''  Speed: '' @ IBytes e (uint64_of_float e (speed m)) @ ''/sec''"

definition eta_line :: "env \<Rightarrow> Duration \<times> Time \<Rightarrow> string" where
  "eta_line e x =
     ''  ETA: '' @ RFC3339 e (snd x) @ '' ('' @ formatDuration (fst x) @ '' remaining)''"

definition starting_line :: string where
  "starting_line = ''  Decommissioning is starting, ETA not yet available...''"

definition no_pools_line :: string where
  "no_pools_line = ''No pools are currently being decommissioned.''"

text \<open>
  The lines of one iteration, lines 135 to 166; \<open>None\<close> when the iteration ends at a
  \<^verbatim>\<open>continue\<close>, before \<^verbatim>\<open>hasDraining\<close> is set.
\<close>

definition pool_lines :: "env \<Rightarrow> readings \<Rightarrow> PoolStatus \<Rightarrow> string list option" where
  "pool_lines e clk p =
     (case Decommission p of
        None \<Rightarrow> None
      | Some d \<Rightarrow>
          (case evaluate e (Some d) clk of
             NotDraining \<Rightarrow> None
           | Starting \<Rightarrow>
               Some [header_line p, started_line e clk d, starting_line, []]
           | InProgress m \<Rightarrow>
               Some ([header_line p, started_line e clk d, progress_line e m,
                      usage_line e d m, speed_line e m] @
                     (case eta m of None \<Rightarrow> [] | Some x \<Rightarrow> [eta_line e x]) @
                     [[]])))"

subsection \<open>The loop and the final message\<close>

text \<open>
  The state of the loop is the flag \<^verbatim>\<open>hasDraining\<close> and the lines printed so far. Every
  pool comes with the clock readings of its iteration.
\<close>

definition iteration ::
  "env \<Rightarrow> PoolStatus \<times> readings \<Rightarrow> bool \<times> string list \<Rightarrow> bool \<times> string list" where
  "iteration e pc st =
     (case pool_lines e (snd pc) (fst pc) of
        None \<Rightarrow> st
      | Some ls \<Rightarrow> (True, snd st @ ls))"

fun loop ::
  "env \<Rightarrow> (PoolStatus \<times> readings) list \<Rightarrow> bool \<times> string list \<Rightarrow> bool \<times> string list" where
  "loop e [] st = st"
| "loop e (pc # pcs) st = loop e pcs (iteration e pc st)"

text \<open>
  \<^verbatim>\<open>
  hasDraining := false
  for _, pool := range pools { ... }
  if !hasDraining { fmt.Println("No pools are currently being decommissioned.") }
  \<close>
\<close>

definition main_output :: "env \<Rightarrow> (PoolStatus \<times> readings) list \<Rightarrow> string list" where
  "main_output e pcs =
     (let st = loop e pcs (False, [])
      in if \<not> fst st then snd st @ [no_pools_line] else snd st)"

text \<open>The metrics of a pool whose progress is printed.\<close>

fun metrics_of :: "view \<Rightarrow> metrics option" where
  "metrics_of (InProgress m) = Some m"
| "metrics_of _ = None"

section \<open>Example inputs\<close>

text \<open>
  Stand-ins for the formatters of other packages (a time is printed as its number of
  nanoseconds, a byte count in decimal, a float as its integer part) and a few pool
  snapshots, used to evaluate the model on concrete inputs.
\<close>

definition example_env :: env where
  "example_env =
     \<lparr>RFC3339 = Sprintf_d,
      RelTime = (\<lambda>a b. Sprintf_d ((b - a) div 1000000000) @ '' seconds''),
      IBytes = (\<lambda>w. show_nat (unat w) @ '' B''),
      Fmt1f = (\<lambda>f. case f of Fin r \<Rightarrow> Sprintf_d (trunc r) | PInf \<Rightarrow> ''+Inf''
                 | NInf \<Rightarrow> ''-Inf'' | NaN \<Rightarrow> ''NaN''),
      oob_int64 = (\<lambda>f. 0), oob_uint64 = (\<lambda>f. 0)\<rparr>"

text \<open>All clock readings of an iteration return the same time.\<close>

definition readings_at :: "Time \<Rightarrow> readings" where
  "readings_at t = \<lparr>now_since = t, now_rel = t, now_eta = t\<rparr>"


text \<open>A decommission that is complete.\<close>

definition snapshot_done :: PoolDecommissionInfo where
  "snapshot_done =
     \<lparr>StartTime = 1000000000, StartSize = 0, TotalSize = 1073741824,
      CurrentSize = 1073741824, Complete = True, Failed = False, Canceled = False\<rparr>"

text \<open>
  A pool of 1 GiB that was full at the start and has freed 219 MiB; it is read 90
  seconds after the start, at the time \<open>63900000090000000000\<close>. The metrics are the
  ones the loop computes for it then.
\<close>

definition snapshot_gib :: PoolDecommissionInfo where
  "snapshot_gib =
     \<lparr>StartTime = 63900000000000000000, StartSize = 0, TotalSize = 1073741824,
      CurrentSize = 229638144, Complete = False, Failed = False, Canceled = False\<rparr>"

definition metrics_gib :: metrics where
  "metrics_gib =
     \<lparr>initialUsed = 1073741824, bytesFreed = 229638144, usedNow = 844103680,
      elapsed = 90000000000, progress = Fin (219 / 1024), speed = Fin (38273024 / 15),
      usagePercent = Fin (20125 / 256),
      eta = Some (330000000000, 63900000420000000000)\<rparr>"

text \<open>The same pool one MiB later.\<close>

definition metrics_gib_220 :: metrics where
  "metrics_gib_220 =
     \<lparr>initialUsed = 1073741824, bytesFreed = 230686720, usedNow = 843055104,
      elapsed = 90000000000, progress = Fin (55 / 256), speed = Fin (23068672 / 9),
      usagePercent = Fin (5025 / 64),
      eta = Some (328000000000, 63900000418000000000)\<rparr>"

text \<open>Counters that make no sense: a capacity of zero and negative free space.\<close>

definition snapshot_garbage :: PoolDecommissionInfo where
  "snapshot_garbage =
     \<lparr>StartTime = 1000000000, StartSize = - 10, TotalSize = 0, CurrentSize = - 5,
      Complete = False, Failed = False, Canceled = False\<rparr>"

text \<open>
  \<^verbatim>\<open>CurrentSize\<close> is the least \<^verbatim>\<open>int64\<close>, so that \<^verbatim>\<open>CurrentSize - StartSize\<close> wraps
  around to a positive number.
\<close>

definition snapshot_wrapped :: PoolDecommissionInfo where
  "snapshot_wrapped =
     \<lparr>StartTime = 1000000000, StartSize = 10, TotalSize = 1000,
      CurrentSize = - 9223372036854775808, Complete = False, Failed = False,
      Canceled = False\<rparr>"

section \<open>Properties of formatDuration\<close>


lemma trunc_neg: "k < 0 \<Longrightarrow> 0 < n \<Longrightarrow> trunc (of_int k / of_int n) \<le> 0"
  by (simp add: trunc_def ceiling_le_iff divide_nonpos_pos)



lemma sdiv_nonpos: "(a::int) \<le> 0 \<Longrightarrow> 0 < b \<Longrightarrow> a sdiv b \<le> 0"
  by (simp add: signed_divide_int_def sgn_if pos_imp_zdiv_nonneg_iff)

lemma smod_nonpos: "(a::int) \<le> 0 \<Longrightarrow> 0 < b \<Longrightarrow> a smod b \<le> 0"
  by (simp add: signed_modulo_int_def sgn_if)










lemma Join_Nil_iff: "x \<noteq> [] \<Longrightarrow> Join (x # xs) sep \<noteq> []"
  by (cases xs) simp_all


lemma formatDuration_neg:
  assumes "sint d < 0"
  shows "formatDuration d = ''< 1m''"
proof -
  have h: "trunc (Hours d) \<le> 0" unfolding Hours_def using trunc_neg [OF assms, of 3600000000000] by simp
  have m: "trunc (Minutes d) \<le> 0" unfolding Minutes_def using trunc_neg [OF assms, of 60000000000] by simp
  have "trunc (Hours d) sdiv 24 \<le> 0" "trunc (Hours d) smod 24 \<le> 0" "trunc (Minutes d) smod 60 \<le> 0"
    using h m by (simp_all add: sdiv_nonpos smod_nonpos)
  then show ?thesis by (simp add: formatDuration_def Let_def)
qed



text \<open>
  Claim C10. For every duration below zero \<^verbatim>\<open>formatDuration\<close> returns the sentinel
  \<^verbatim>\<open>< 1m\<close>: the days, the hours and the minutes are all at most zero, so none of the
  three checks \<^verbatim>\<open>> 0\<close> holds and no component is printed.
\<close>

theorem C10_formatDuration_negative:
  assumes "sint d < 0"
  shows "formatDuration d = ''< 1m''"
  by (rule formatDuration_neg [OF assms])

theorem C10_formatDuration_negative_witness:
  "sint (- 7500000000000 :: 64 word) < 0 \<and> formatDuration (- 7500000000000) = ''< 1m''"
proof -
  have h: "sint (- 7500000000000 :: 64 word) < 0" by simp
  show ?thesis using C10_formatDuration_negative [OF h] h by simp
qed

section \<open>Properties of the loop\<close>

lemma sless_0_iff: "(0 <s (x::64 word)) = (0 < sint x)"
  by (simp add: word_sless_alt)


lemma sint_sub_in_range:
  fixes a b :: "64 word"
  assumes "- (2 ^ 63) \<le> sint a - sint b" "sint a - sint b < 2 ^ 63"
  shows "sint (a - b) = sint a - sint b"
  using assms by (simp add: sint_word_diff signed_take_bit_int_eq_self)

lemma sint_sub_exact:
  fixes a b :: "64 word"
  assumes "0 \<le> sint a" "0 \<le> sint b"
  shows "sint (a - b) = sint a - sint b"
proof -
  have "sint a < 2 ^ 63" "sint b < 2 ^ 63"
    using sint_lt [of a] sint_lt [of b] by simp_all
  with assms have "- (2 ^ 63) \<le> sint a - sint b" "sint a - sint b < 2 ^ 63" by simp_all
  then show ?thesis by (rule sint_sub_in_range)
qed





lemma loop_append: "loop e (xs @ ys) st = loop e ys (loop e xs st)"
  by (induction xs arbitrary: st) simp_all

lemma pool_lines_NotDraining:
  "evaluate e (Decommission p) clk = NotDraining \<Longrightarrow> pool_lines e clk p = None"
  by (cases "Decommission p") (simp_all add: pool_lines_def)


lemma iteration_skip: "pool_lines e (snd pc) (fst pc) = None \<Longrightarrow> iteration e pc st = st"
  by (simp add: iteration_def)

lemma loop_all_skipped:
  "\<forall>pc \<in> set pcs. pool_lines e (snd pc) (fst pc) = None \<Longrightarrow> loop e pcs st = st"
  by (induction pcs arbitrary: st) (simp_all add: iteration_skip)

lemma evaluate_terminal:
  "IsZero (StartTime d) \<or> Complete d \<or> Failed d \<or> Canceled d \<Longrightarrow>
   evaluate e (Some d) clk = NotDraining"
  by (auto simp: evaluate_def)

text \<open>
  Claim C2. A pool whose start time is the zero time, or whose flag \<^verbatim>\<open>Complete\<close>,
  \<^verbatim>\<open>Failed\<close> or \<^verbatim>\<open>Canceled\<close> is set, is not draining, whatever its other fields and the
  clock are: nothing is computed for it, its iteration prints no line and leaves the
  state of the loop as it was, and the report is the report of the other pools.
\<close>

theorem C2_not_draining:
  assumes "IsZero (StartTime d) \<or> Complete d \<or> Failed d \<or> Canceled d"
    and "Decommission p = Some d"
  shows "evaluate e (Some d) clk = NotDraining
       \<and> pool_lines e clk p = None
       \<and> iteration e (p, clk) st = st
       \<and> main_output e (xs @ (p, clk) # ys) = main_output e (xs @ ys)"
proof -
  have v: "evaluate e (Some d) clk = NotDraining"
    by (rule evaluate_terminal [OF assms(1)])
  then have l: "pool_lines e clk p = None"
    using assms(2) pool_lines_NotDraining [of e p clk] by simp
  then have i: "iteration e (p, clk) st' = st'" for st'
    by (simp add: iteration_skip)
  have "loop e (xs @ (p, clk) # ys) (False, []) = loop e (xs @ ys) (False, [])"
    by (simp add: loop_append i)
  then have "main_output e (xs @ (p, clk) # ys) = main_output e (xs @ ys)"
    by (simp only: main_output_def)
  with v l i show ?thesis by simp
qed

theorem C2_not_draining_witness:
  "(IsZero (StartTime snapshot_done) \<or> Complete snapshot_done \<or> Failed snapshot_done \<or>
      Canceled snapshot_done)
   \<and> evaluate example_env (Some snapshot_done) (readings_at 91000000000) = NotDraining
   \<and> pool_lines example_env (readings_at 91000000000)
        \<lparr>ID = 0, CmdLine = ''pool'', Decommission = Some snapshot_done\<rparr> = None
   \<and> main_output example_env
        [(\<lparr>ID = 0, CmdLine = ''pool'', Decommission = Some snapshot_done\<rparr>,
          readings_at 91000000000)] =
      [''No pools are currently being decommissioned.'']"
proof -
  have h: "IsZero (StartTime snapshot_done) \<or> Complete snapshot_done \<or> Failed snapshot_done \<or>
      Canceled snapshot_done"
    by (simp add: snapshot_done_def)
  have p: "Decommission \<lparr>ID = 0, CmdLine = ''pool'', Decommission = Some snapshot_done\<rparr> =
      Some snapshot_done" by simp
  show ?thesis
    using C2_not_draining [OF h p, of example_env "readings_at 91000000000" _ "[]" "[]"] h
    by (simp add: main_output_def no_pools_line_def)
qed

text \<open>
  Claim C7. When no pool of the list is draining, and so for the empty list, the
  program prints the single line \<^verbatim>\<open>No pools are currently being decommissioned.\<close> and
  nothing else.
\<close>

theorem C7_no_pools_message:
  assumes "\<forall>pc \<in> set pcs. evaluate e (Decommission (fst pc)) (snd pc) = NotDraining"
  shows "main_output e pcs = [''No pools are currently being decommissioned.'']
       \<and> main_output e [] = [''No pools are currently being decommissioned.'']"
proof -
  have "\<forall>pc \<in> set pcs. pool_lines e (snd pc) (fst pc) = None"
    using assms by (simp add: pool_lines_NotDraining)
  then have "loop e pcs (False, []) = (False, [])"
    by (rule loop_all_skipped)
  then show ?thesis by (simp add: main_output_def no_pools_line_def)
qed

theorem C7_no_pools_message_witness:
  "evaluate example_env None (readings_at 91000000000) = NotDraining
   \<and> evaluate example_env (Some snapshot_done) (readings_at 91000000000) = NotDraining
   \<and> main_output example_env
        [(\<lparr>ID = 0, CmdLine = ''a'', Decommission = None\<rparr>, readings_at 91000000000),
         (\<lparr>ID = 1, CmdLine = ''b'', Decommission = Some snapshot_done\<rparr>,
          readings_at 91000000000)] =
      [''No pools are currently being decommissioned.'']"
proof -
  have a: "evaluate example_env None (readings_at 91000000000) = NotDraining"
    by (simp add: evaluate_def)
  have b: "evaluate example_env (Some snapshot_done) (readings_at 91000000000) = NotDraining"
    by (simp add: evaluate_def snapshot_done_def)
  have h: "\<forall>pc \<in> set [(\<lparr>ID = 0, CmdLine = ''a'', Decommission = None\<rparr>, readings_at 91000000000),
                 (\<lparr>ID = 1, CmdLine = ''b'', Decommission = Some snapshot_done\<rparr>,
                  readings_at 91000000000)].
       evaluate example_env (Decommission (fst pc)) (snd pc) = NotDraining"
    using a b by simp
  show ?thesis using C7_no_pools_message [OF h] a b by blast
qed

lemma evaluate_InProgress_D:
  assumes "evaluate e (Some d) clk = InProgress m"
  shows "\<not> IsZero (StartTime d) \<and> \<not> Complete d \<and> \<not> Failed d \<and> \<not> Canceled d"
    and "initialUsed m = TotalSize d - StartSize d"
    and "bytesFreed m = CurrentSize d - StartSize d"
    and "usedNow m = TotalSize d - CurrentSize d"
    and "elapsed m = Sub (now_since clk) (StartTime d)"
    and "0 < sint (bytesFreed m)"
    and "0 < sint (initialUsed m)"
    and "10 < Seconds (elapsed m)"
    and "progress m = Fin (of_int (sint (bytesFreed m)) / of_int (sint (initialUsed m)))"
    and "speed m = Fin (of_int (sint (bytesFreed m)) / Seconds (elapsed m))"
    and "usagePercent m =
           fdiv (Fin (100 * of_int (sint (usedNow m)))) (Fin (of_int (sint (TotalSize d))))"
  using assms
  by (auto simp: evaluate_def Let_def float64_of_def sless_0_iff simp del: of_int_sint
      split: if_splits)


lemma progress_lt_1:
  assumes "evaluate e (Some d) clk = InProgress m"
  shows "flt (Fin 0) (progress m)"
    and "flt (progress m) (Fin 1) = (sint (bytesFreed m) < sint (initialUsed m))"
proof -
  note D = evaluate_InProgress_D [OF assms]
  show "flt (Fin 0) (progress m)" using D(6,7) by (simp add: D(9) del: of_int_sint)
  have "(rat_of_int (sint (bytesFreed m)) / rat_of_int (sint (initialUsed m)) < 1) =
        (rat_of_int (sint (bytesFreed m)) < rat_of_int (sint (initialUsed m)))"
    using D(7) by (simp add: divide_less_eq_1 del: of_int_sint)
  then show "flt (progress m) (Fin 1) = (sint (bytesFreed m) < sint (initialUsed m))"
    by (simp add: D(9) del: of_int_sint)
qed


lemma evaluate_gib:
  "evaluate example_env (Some snapshot_gib) (readings_at 63900000090000000000) =
     InProgress metrics_gib"
  by code_simp

lemma evaluate_gib_220:
  "evaluate example_env (Some (snapshot_gib\<lparr>CurrentSize := 230686720\<rparr>))
     (readings_at 63900000090000000000) = InProgress metrics_gib_220"
  by code_simp












text \<open>
  Claim C5 says that every divisor reached when the progress lines are printed is
  strictly positive, the divisor of the current-usage percentage included. The check
  of line 140 covers \<^verbatim>\<open>initialUsed\<close> and the elapsed time, and the check of line 154
  covers \<^verbatim>\<open>progress\<close>, but nothing covers \<^verbatim>\<open>TotalSize\<close>, the divisor of line 151. For a
  pool with \<^verbatim>\<open>TotalSize = 0\<close>, \<^verbatim>\<open>StartSize = -10\<close> and \<^verbatim>\<open>CurrentSize = -5\<close>, read 60
  seconds after its start, the progress lines are printed, the divisor \<^verbatim>\<open>TotalSize\<close> is
  zero and the percentage is an infinity.
\<close>

theorem C5_usage_divisor_zero:
  "float64_of (TotalSize snapshot_garbage) = Fin 0
   \<and> metrics_of (evaluate example_env (Some snapshot_garbage) (readings_at 61000000000)) =
       Some \<lparr>initialUsed = 10, bytesFreed = 5, usedNow = 5, elapsed = 60000000000,
             progress = Fin (1 / 2), speed = Fin (1 / 12), usagePercent = PInf,
             eta = Some (60000000000, 121000000000)\<rparr>
   \<and> usage_line example_env snapshot_garbage
        \<lparr>initialUsed = 10, bytesFreed = 5, usedNow = 5, elapsed = 60000000000,
         progress = Fin (1 / 2), speed = Fin (1 / 12), usagePercent = PInf,
         eta = Some (60000000000, 121000000000)\<rparr> =
       ''  Current usage: 5 B / 0 B (+Inf%)''"
proof -
  have a: "float64_of (TotalSize snapshot_garbage) = Fin 0"
    by (simp add: float64_of_def snapshot_garbage_def)
  have b: "metrics_of (evaluate example_env (Some snapshot_garbage) (readings_at 61000000000)) =
       Some \<lparr>initialUsed = 10, bytesFreed = 5, usedNow = 5, elapsed = 60000000000,
             progress = Fin (1 / 2), speed = Fin (1 / 12), usagePercent = PInf,
             eta = Some (60000000000, 121000000000)\<rparr>"
    by code_simp
  have c: "usage_line example_env snapshot_garbage
        \<lparr>initialUsed = 10, bytesFreed = 5, usedNow = 5, elapsed = 60000000000,
         progress = Fin (1 / 2), speed = Fin (1 / 12), usagePercent = PInf,
         eta = Some (60000000000, 121000000000)\<rparr> =
       ''  Current usage: 5 B / 0 B (+Inf%)''"
    by (simp add: usage_line_def example_env_def snapshot_garbage_def show_nat.simps)
  from a b c show ?thesis by simp
qed


text \<open>
  The other divisors of the branch are strictly positive, and so is \<^verbatim>\<open>TotalSize\<close> when
  neither it nor \<^verbatim>\<open>StartSize\<close> is negative.
\<close>

lemma guarded_divisors_positive:
  assumes "evaluate e (Some d) clk = InProgress m"
  shows "0 < sint (initialUsed m)" and "0 < Seconds (elapsed m)" and "flt (Fin 0) (progress m)"
    and "0 \<le> sint (StartSize d) \<Longrightarrow> 0 \<le> sint (TotalSize d) \<Longrightarrow> 0 < sint (TotalSize d)"
proof -
  note D = evaluate_InProgress_D [OF assms]
  show "0 < sint (initialUsed m)" by (rule D(7))
  show "0 < Seconds (elapsed m)" using D(8) by simp
  show "flt (Fin 0) (progress m)" by (rule progress_lt_1(1) [OF assms])
  show "0 < sint (TotalSize d)" if "0 \<le> sint (StartSize d)" "0 \<le> sint (TotalSize d)"
  proof -
    have "sint (TotalSize d - StartSize d) = sint (TotalSize d) - sint (StartSize d)"
      using that by (intro sint_sub_exact)
    with D(7) that(1) show ?thesis by (simp add: D(2))
  qed
qed

lemma stb_shift: "signed_take_bit 63 (k - 2 ^ 64) = signed_take_bit 63 (k::int)"
proof -
  have "(k - 2 ^ 64) mod 2 ^ 64 = k mod (2 ^ 64 :: int)"
    by (metis minus_mod_self2)
  then show ?thesis
    by (simp add: signed_take_bit_eq_iff_take_bit_eq take_bit_eq_mod)
qed

lemma sint_sub_pos:
  fixes a b :: "64 word"
  assumes "0 < sint (a - b)" and "- (2 ^ 63) \<le> sint a - sint b"
  shows "sint (a - b) = sint a - sint b"
proof (cases "sint a - sint b < 2 ^ 63")
  case True
  with assms(2) show ?thesis by (simp add: sint_sub_in_range)
next
  case False
  have "sint a < 2 ^ 63" "- (2 ^ 63) \<le> sint b"
    using sint_lt [of a] sint_ge [of b] by simp_all
  with False have r: "- (2 ^ 63) \<le> sint a - sint b - 2 ^ 64" "sint a - sint b - 2 ^ 64 < 0"
    by simp_all
  have "sint (a - b) = signed_take_bit 63 (sint a - sint b)"
    by (simp add: sint_word_diff)
  also have "\<dots> = signed_take_bit 63 (sint a - sint b - 2 ^ 64)"
    by (simp only: stb_shift)
  also have "\<dots> = sint a - sint b - 2 ^ 64"
    using r by (simp add: signed_take_bit_int_eq_self)
  finally show ?thesis using r(2) assms(1) by simp
qed

text \<open>
  Claim C8, as amended. Take two pools that agree on every field but \<^verbatim>\<open>CurrentSize\<close>
  and whose progress is printed. If the difference \<^verbatim>\<open>CurrentSize - StartSize\<close> of the one
  with the smaller \<^verbatim>\<open>CurrentSize\<close> does not fall below the least \<^verbatim>\<open>int64\<close> (as for
  counters that are not negative), then its progress fraction is at most the other's.
\<close>

theorem C8_progress_monotone:
  assumes "evaluate e (Some d) clk = InProgress m1"
    and "evaluate e (Some (d\<lparr>CurrentSize := c\<rparr>)) clk' = InProgress m2"
    and "sint (CurrentSize d) \<le> sint c"
    and "- (2 ^ 63) \<le> sint (CurrentSize d) - sint (StartSize d)"
  shows "fle (progress m1) (progress m2)"
proof -
  note D1 = evaluate_InProgress_D [OF assms(1)]
  note D2 = evaluate_InProgress_D [OF assms(2)]
  have iu: "initialUsed m2 = initialUsed m1" by (simp add: D1(2) D2(2))
  have b1: "sint (bytesFreed m1) = sint (CurrentSize d) - sint (StartSize d)"
    using D1(6) assms(4) unfolding D1(3) by (rule sint_sub_pos)
  have "- (2 ^ 63) \<le> sint c - sint (StartSize d)" using assms(3,4) by simp
  moreover have "0 < sint (c - StartSize d)" using D2(6) by (simp add: D2(3))
  ultimately have "sint (c - StartSize d) = sint c - sint (StartSize d)"
    by (intro sint_sub_pos)
  then have b2: "sint (bytesFreed m2) = sint c - sint (StartSize d)" by (simp add: D2(3))
  have le: "sint (bytesFreed m1) \<le> sint (bytesFreed m2)" using b1 b2 assms(3) by simp
  have "rat_of_int (sint (bytesFreed m1)) / rat_of_int (sint (initialUsed m1)) \<le>
        rat_of_int (sint (bytesFreed m2)) / rat_of_int (sint (initialUsed m1))"
    using le D1(7) by (intro divide_right_mono) (simp_all del: of_int_sint)
  then show ?thesis by (auto simp: D1(9) D2(9) iu simp del: of_int_sint)
qed

theorem C8_progress_monotone_witness:
  "evaluate example_env (Some snapshot_gib) (readings_at 63900000090000000000) =
     InProgress metrics_gib
   \<and> evaluate example_env (Some (snapshot_gib\<lparr>CurrentSize := 230686720\<rparr>))
       (readings_at 63900000090000000000) = InProgress metrics_gib_220
   \<and> sint (CurrentSize snapshot_gib) \<le> sint (230686720 :: 64 word)
   \<and> - (2 ^ 63) \<le> sint (CurrentSize snapshot_gib) - sint (StartSize snapshot_gib)
   \<and> fle (Fin (219 / 1024)) (Fin (55 / 256))"
proof -
  have a: "sint (CurrentSize snapshot_gib) \<le> sint (230686720 :: 64 word)"
    by (simp add: snapshot_gib_def)
  have b: "- (2 ^ 63) \<le> sint (CurrentSize snapshot_gib) - sint (StartSize snapshot_gib)"
    by (simp add: snapshot_gib_def)
  show ?thesis
    using C8_progress_monotone [OF evaluate_gib evaluate_gib_220 a b] evaluate_gib
      evaluate_gib_220 a b
    by (simp add: metrics_gib_def metrics_gib_220_def)
qed

text \<open>
  Claim C8 as stated fails when the subtraction wraps around: with \<^verbatim>\<open>StartSize = 10\<close>
  and \<^verbatim>\<open>TotalSize = 1000\<close>, the pool whose \<^verbatim>\<open>CurrentSize\<close> is the least \<^verbatim>\<open>int64\<close> has
  \<^verbatim>\<open>bytesFreed = 9223372036854775798\<close>, and the pool with the larger
  \<^verbatim>\<open>CurrentSize = 11\<close> has \<^verbatim>\<open>bytesFreed = 1\<close> and the smaller progress fraction.
\<close>

theorem C8_progress_wraps_counterexample:
  "sint (CurrentSize snapshot_wrapped) \<le> sint (11 :: 64 word)
   \<and> map_option progress
       (metrics_of (evaluate example_env (Some snapshot_wrapped) (readings_at 61000000000))) =
       Some (Fin (9223372036854775798 / 990))
   \<and> map_option progress
       (metrics_of (evaluate example_env (Some (snapshot_wrapped\<lparr>CurrentSize := 11\<rparr>))
          (readings_at 61000000000))) = Some (Fin (1 / 990))
   \<and> \<not> fle (Fin (9223372036854775798 / 990)) (Fin (1 / 990))"
proof -
  have a: "sint (CurrentSize snapshot_wrapped) \<le> sint (11 :: 64 word)"
    by (simp add: snapshot_wrapped_def)
  have b: "map_option progress
       (metrics_of (evaluate example_env (Some snapshot_wrapped) (readings_at 61000000000))) =
       Some (Fin (9223372036854775798 / 990))"
    by code_simp
  have c: "map_option progress
       (metrics_of (evaluate example_env (Some (snapshot_wrapped\<lparr>CurrentSize := 11\<rparr>))
          (readings_at 61000000000))) = Some (Fin (1 / 990))"
    by code_simp
  have d: "\<not> fle (Fin (9223372036854775798 / 990)) (Fin (1 / 990))" by simp
  from a b c d show ?thesis by blast
qed





end
